theory Spec2Isabelle
  imports Main
begin

section \<open>The parsed document (the tree the HTML parser hands back)\<close>

text \<open>
  A parsed document is a forest of nodes. A tag carries its name, its attributes (the
  parser keeps them as a dictionary; here an association list read with \<open>map_of\<close>) and its
  children. A plain string of the page is a \<open>NavigableString\<close> node. A string of one of
  the subclasses of \<open>NavigableString\<close> carries its class: the parser makes a \<open>Comment\<close> of
  a comment, a \<open>CData\<close> of a CDATA section, and gives a string that lies inside a script,
  style, template, rt or rp tag the class \<open>Script\<close>, \<open>Stylesheet\<close>, \<open>TemplateString\<close>,
  \<open>RubyTextString\<close> or \<open>RubyParenthesisString\<close>.
\<close>

datatype string_class =
    CData
  | Comment
  | Declaration
  | Doctype
  | ProcessingInstruction
  | Script
  | Stylesheet
  | TemplateString
  | RubyTextString
  | RubyParenthesisString

datatype node =
    NavigableString string
  | SubclassString string_class string
  | Tag string "(string \<times> string) list" "node list"

type_synonym soup = "node list"

text \<open>All nodes below a node, the node itself first, in document order.\<close>

fun self_and_descendants :: "node \<Rightarrow> node list" where
  "self_and_descendants (Tag n a cs) = Tag n a cs # concat (map self_and_descendants cs)"
| "self_and_descendants (NavigableString s) = [NavigableString s]"
| "self_and_descendants (SubclassString c s) = [SubclassString c s]"

definition descendants :: "node list \<Rightarrow> node list" where
  "descendants ns = concat (map self_and_descendants ns)"

fun is_tag_named :: "string list \<Rightarrow> node \<Rightarrow> bool" where
  "is_tag_named names (Tag n a cs) = (n \<in> set names)"
| "is_tag_named names (NavigableString s) = False"
| "is_tag_named names (SubclassString c s) = False"

text \<open>\<open>soup.find_all(names)\<close>, also written \<open>soup(names)\<close>: every matching tag, in document order.\<close>

definition find_all :: "string list \<Rightarrow> node list \<Rightarrow> node list" where
  "find_all names ns = filter (is_tag_named names) (descendants ns)"

text \<open>\<open>soup.title\<close>, \<open>soup.body\<close>: the first tag of that name, or \<open>None\<close>.\<close>

definition find_tag :: "string \<Rightarrow> node list \<Rightarrow> node option" where
  "find_tag name ns = List.find (is_tag_named [name]) (descendants ns)"

text \<open>
  The \<open>.string\<close> accessor: a tag with exactly one child yields that child when it is a
  string (of any class), and asks the child when it is a tag; any other number of children
  yields \<open>None\<close>.
\<close>

fun string_of :: "node \<Rightarrow> string option" where
  "string_of (NavigableString s) = Some s"
| "string_of (SubclassString c s) = Some s"
| "string_of (Tag n a [c]) = string_of c"
| "string_of (Tag n a cs) = None"

fun children :: "node \<Rightarrow> node list" where
  "children (Tag n a cs) = cs"
| "children (NavigableString s) = []"
| "children (SubclassString c s) = []"

text \<open>\<open>link.get("href")\<close>: the attribute's value, or \<open>None\<close>.\<close>

fun get_attr :: "node \<Rightarrow> string \<Rightarrow> string option" where
  "get_attr (Tag n a cs) k = map_of a k"
| "get_attr (NavigableString s) k = None"
| "get_attr (SubclassString c s) k = None"

text \<open>
  The loop \<open>for irrelevant in body(names): irrelevant.decompose()\<close>: every tag with one
  of the names is taken out of the tree with all that is below it.
\<close>

fun decompose :: "string list \<Rightarrow> node \<Rightarrow> node list" where
  "decompose names (Tag n a cs) =
     (if n \<in> set names then [] else [Tag n a (concat (map (decompose names) cs))])"
| "decompose names (NavigableString s) = [NavigableString s]"
| "decompose names (SubclassString c s) = [SubclassString c s]"

definition decompose_all :: "string list \<Rightarrow> node list \<Rightarrow> node list" where
  "decompose_all names ns = concat (map (decompose names) ns)"

definition irrelevant :: "string list" where
  "irrelevant = [''script'', ''style'', ''img'', ''input'']"

subsection \<open>Text extraction\<close>

text \<open>Python's \<open>str.isspace\<close> on the characters an 8-bit \<open>char\<close> can hold.\<close>

definition isspace :: "char \<Rightarrow> bool" where
  "isspace c = (c \<in> set [CHR 0x09, CHR 0x0A, CHR 0x0B, CHR 0x0C, CHR 0x0D,
                          CHR 0x1C, CHR 0x1D, CHR 0x1E, CHR 0x1F, CHR 0x20,
                          CHR 0x85, CHR 0xA0])"

definition strip :: "string \<Rightarrow> string" where
  "strip s = rev (dropWhile isspace (rev (dropWhile isspace s)))"

fun join :: "string \<Rightarrow> string list \<Rightarrow> string" where
  "join sep [] = []"
| "join sep [x] = x"
| "join sep (x # y # ys) = x @ sep @ join sep (y # ys)"

fun text_of :: "node \<Rightarrow> string list" where
  "text_of (NavigableString s) = [s]"
| "text_of (SubclassString c s) = (if c = CData then [s] else [])"
| "text_of (Tag n a cs) = []"

text \<open>
  The strings that text extraction takes, in document order: the plain strings and the
  CDATA sections. A string of any other class (a comment, a string inside a template, rt
  or rp tag, ...) is left out.
\<close>

definition all_strings :: "node list \<Rightarrow> string list" where
  "all_strings ns = concat (map text_of (descendants ns))"

text \<open>
  \<open>get_text(separator, strip=True)\<close>: every string is stripped, a string that is empty
  after stripping is dropped, the rest is joined with the separator.
\<close>

definition get_text :: "string \<Rightarrow> node list \<Rightarrow> string" where
  "get_text sep ns = join sep (filter (\<lambda>s. s \<noteq> []) (map strip (all_strings ns)))"

section \<open>Exceptions, the HTTP client and the library\<close>

text \<open>
  The exception classes the module meets. The first eleven are the classes of the HTTP
  client: all of them are \<open>RequestException\<close>s; \<open>ProxyError\<close>, \<open>SSLError\<close> and
  \<open>ConnectTimeout\<close> derive from \<open>ConnectionError\<close>; \<open>ConnectTimeout\<close> and \<open>ReadTimeout\<close>
  derive from \<open>Timeout\<close> (\<open>ConnectTimeout\<close> has both bases). \<open>HTTPError\<close> carries the status
  of its response. The last three are not \<open>RequestException\<close>s.
\<close>

datatype exc =
    RequestException
  | ConnectionError
  | ProxyError
  | SSLError
  | Timeout
  | ConnectTimeout
  | ReadTimeout
  | TooManyRedirects
  | MissingSchema
  | InvalidSchema
  | HTTPError nat
  | TypeError
  | ValueError
  | OtherException

fun is_ConnectionError :: "exc \<Rightarrow> bool" where
  "is_ConnectionError ConnectionError = True"
| "is_ConnectionError ProxyError = True"
| "is_ConnectionError SSLError = True"
| "is_ConnectionError ConnectTimeout = True"
| "is_ConnectionError e = False"

fun is_Timeout :: "exc \<Rightarrow> bool" where
  "is_Timeout Timeout = True"
| "is_Timeout ConnectTimeout = True"
| "is_Timeout ReadTimeout = True"
| "is_Timeout e = False"

fun is_RequestException :: "exc \<Rightarrow> bool" where
  "is_RequestException TypeError = False"
| "is_RequestException ValueError = False"
| "is_RequestException OtherException = False"
| "is_RequestException e = True"

text \<open>What \<open>requests.get\<close> does: it raises, or it returns a response (status, content).\<close>

datatype outcome = Raises exc | Response nat string

text \<open>\<open>response.raise_for_status()\<close> raises for the statuses 400 to 599 and for no other.\<close>

definition raise_for_status :: "nat \<Rightarrow> exc option" where
  "raise_for_status status =
     (if 400 \<le> status \<and> status < 600 then Some (HTTPError status) else None)"

text \<open>
  The collaborators of the module, as parameters: the network behind \<open>requests.get\<close>, the
  parser \<open>BeautifulSoup(markup, "html.parser")\<close>, the serialiser \<open>str(tag)\<close> and \<open>urljoin\<close>.
\<close>

record env =
  http_get :: "string \<Rightarrow> outcome"
  html_parse :: "string \<Rightarrow> exc + soup"
  render :: "node \<Rightarrow> string"
  urljoin :: "string \<Rightarrow> string \<Rightarrow> exc + string"

text \<open>
  The state outside the functions: the parsed documents that exist (an object is its
  index) and the requests sent so far.
\<close>

record world =
  objs :: "soup list"
  reqs :: "string list"

definition requests_get :: "env \<Rightarrow> string \<Rightarrow> world \<Rightarrow> outcome \<times> world" where
  "requests_get E u w = (http_get E u, w\<lparr>reqs := reqs w @ [u]\<rparr>)"

definition new_object :: "soup \<Rightarrow> world \<Rightarrow> nat \<times> world" where
  "new_object d w = (length (objs w), w\<lparr>objs := objs w @ [d]\<rparr>)"

subsection \<open>Python's strings\<close>

definition digit :: "nat \<Rightarrow> char" where
  "digit d = ''0123456789'' ! d"

fun str_nat :: "nat \<Rightarrow> string" where
  "str_nat n = (if n < 10 then [digit n] else str_nat (n div 10) @ [digit (n mod 10)])"

declare str_nat.simps [simp del]

text \<open>\<open>s[:n]\<close>: a negative bound counts from the end.\<close>

definition slice_to :: "int \<Rightarrow> string \<Rightarrow> string" where
  "slice_to n s = (if 0 \<le> n then take (nat n) s else take (nat (int (length s) + n)) s)"

text \<open>\<open>title + "\n\n" + text\<close>, where \<open>title\<close> may be \<open>None\<close>: then \<open>+\<close> raises TypeError.\<close>

definition add_title :: "string option \<Rightarrow> string \<Rightarrow> exc + string" where
  "add_title title text =
     (case title of None \<Rightarrow> Inl TypeError
      | Some t \<Rightarrow> Inr (t @ ''\<newline>\<newline>'' @ text))"

section \<open>The module\<close>

text \<open>\<open>soup.title.string if soup.title else "No title found"\<close>\<close>

definition title_of :: "soup \<Rightarrow> string option" where
  "title_of doc =
     (case find_tag ''title'' doc of
        Some t \<Rightarrow> string_of t
      | None \<Rightarrow> Some ''No title found'')"

subsection \<open>fetch_website_contents\<close>

text \<open>
  \<open>requests.get(...)\<close> followed by \<open>response.raise_for_status()\<close>: the exception
  raised by either, or the content of the response.
\<close>

definition get_and_check :: "outcome \<Rightarrow> exc + string" where
  "get_and_check r =
     (case r of
        Raises e \<Rightarrow> Inl e
      | Response status content \<Rightarrow>
          (case raise_for_status status of
             Some e \<Rightarrow> Inl e
           | None \<Rightarrow> Inr content))"

text \<open>
  The text of the body. The document is local to the call, so the tags are taken out of
  its body in place and the text is read from the same body; without a body the text
  is empty.
\<close>

definition body_text :: "soup \<Rightarrow> string" where
  "body_text doc =
     (case find_tag ''body'' doc of
        Some b \<Rightarrow> get_text ''\<newline>'' (decompose_all irrelevant (children b))
      | None \<Rightarrow> [])"

text \<open>The body of the \<open>try\<close>.\<close>

definition contents_try :: "env \<Rightarrow> outcome \<Rightarrow> exc + string" where
  "contents_try E r =
     (case get_and_check r of
        Inl e \<Rightarrow> Inl e
      | Inr content \<Rightarrow>
          (case html_parse E content of
             Inl e \<Rightarrow> Inl e
           | Inr doc \<Rightarrow>
               (case add_title (title_of doc) (body_text doc) of
                  Inl e \<Rightarrow> Inl e
                | Inr s \<Rightarrow> Inr (slice_to 2000 s))))"

text \<open>The \<open>except\<close> clauses, in the order of the source; the first that matches wins.\<close>

definition contents_except :: "string \<Rightarrow> exc \<Rightarrow> string" where
  "contents_except u e =
     (if is_ConnectionError e then ''[Error: Could not connect to '' @ u @ '']''
      else if is_Timeout e then ''[Error: Timeout for '' @ u @ '']''
      else case e of
             HTTPError status \<Rightarrow> ''[Error: HTTP '' @ str_nat status @ '' for '' @ u @ '']''
           | _ \<Rightarrow> if is_RequestException e then ''[Error: Could not fetch '' @ u @ '']''
                  else ''[Error: Unexpected error for '' @ u @ '']'')"

definition fetch_website_contents :: "env \<Rightarrow> string \<Rightarrow> world \<Rightarrow> string \<times> world" where
  "fetch_website_contents E u w =
     (let (r, w') = requests_get E u w
      in (case contents_try E r of Inl e \<Rightarrow> contents_except u e | Inr s \<Rightarrow> s, w'))"

subsection \<open>The link loop\<close>

text \<open>
  \<open>for link in soup.find_all("a")\<close>: an anchor whose \<open>href\<close> is absent or empty is passed
  over; \<open>urljoin\<close> may raise, and then the loop ends with the exception.
\<close>

fun links_loop :: "env \<Rightarrow> string \<Rightarrow> node list \<Rightarrow> string list \<Rightarrow> exc + string list" where
  "links_loop E u [] links = Inr links"
| "links_loop E u (link # rest) links =
     (case get_attr link ''href'' of
        None \<Rightarrow> links_loop E u rest links
      | Some href \<Rightarrow>
          if href \<noteq> [] then
            (case urljoin E u href of
               Inl e \<Rightarrow> Inl e
             | Inr absolute_url \<Rightarrow> links_loop E u rest (links @ [absolute_url]))
          else links_loop E u rest links)"

subsection \<open>fetch_website_links\<close>

definition links_try :: "env \<Rightarrow> string \<Rightarrow> outcome \<Rightarrow> exc + string list" where
  "links_try E u r =
     (case get_and_check r of
        Inl e \<Rightarrow> Inl e
      | Inr content \<Rightarrow>
          (case html_parse E content of
             Inl e \<Rightarrow> Inl e
           | Inr doc \<Rightarrow> links_loop E u (find_all [''a''] doc) []))"

definition fetch_website_links :: "env \<Rightarrow> string \<Rightarrow> world \<Rightarrow> string list \<times> world" where
  "fetch_website_links E u w =
     (let (r, w') = requests_get E u w
      in (case links_try E u r of Inl e \<Rightarrow> [] | Inr links \<Rightarrow> links, w'))"

subsection \<open>WebsiteFetcher\<close>

text \<open>The object: its URL and a reference to the parsed document, or \<open>None\<close>.\<close>

record fetcher =
  url :: string
  soup :: "nat option"

text \<open>
  \<open>_fetch\<close>: only a \<open>RequestException\<close> is caught (the document stays absent); any other
  exception leaves the method, and so the constructor.
\<close>

definition fetch :: "env \<Rightarrow> fetcher \<Rightarrow> world \<Rightarrow> (exc + fetcher) \<times> world" where
  "fetch E f w =
     (let (r, w1) = requests_get E (url f) w;
          parsed = (case get_and_check r of
                      Inl e \<Rightarrow> Inl e
                    | Inr content \<Rightarrow> html_parse E content)
      in case parsed of
           Inr doc \<Rightarrow> (let (p, w2) = new_object doc w1 in (Inr (f\<lparr>soup := Some p\<rparr>), w2))
         | Inl e \<Rightarrow> if is_RequestException e then (Inr (f\<lparr>soup := None\<rparr>), w1)
                    else (Inl e, w1))"

definition WebsiteFetcher :: "env \<Rightarrow> string \<Rightarrow> world \<Rightarrow> (exc + fetcher) \<times> world" where
  "WebsiteFetcher E u w = fetch E \<lparr>url = u, soup = None\<rparr> w"

text \<open>
  \<open>get_contents\<close>: the body is serialised and parsed again into a new document
  (\<open>body_copy\<close>); the tags are taken out of that new document, and the text is read from
  it. The document of the fetcher is only read. No \<open>except\<close> clause is around any of it.
\<close>

definition get_contents :: "env \<Rightarrow> fetcher \<Rightarrow> int \<Rightarrow> world \<Rightarrow> (exc + string) \<times> world" where
  "get_contents E f max_length w =
     (case soup f of
        None \<Rightarrow> (Inr (''[Error: Could not fetch '' @ url f @ '']''), w)
      | Some p \<Rightarrow>
          (let title = title_of (objs w ! p)
           in case find_tag ''body'' (objs w ! p) of
                Some b \<Rightarrow>
                  (case html_parse E (render E b) of
                     Inl e \<Rightarrow> (Inl e, w)
                   | Inr parsed \<Rightarrow>
                       (let (body_copy, w1) = new_object parsed w;
                            w2 = w1\<lparr>objs := (objs w1)
                                   [body_copy := decompose_all irrelevant (objs w1 ! body_copy)]\<rparr>;
                            text = get_text ''\<newline>'' (objs w2 ! body_copy)
                        in (case add_title title text of
                              Inl e \<Rightarrow> Inl e
                            | Inr s \<Rightarrow> Inr (slice_to max_length s), w2)))
              | None \<Rightarrow>
                  (case add_title title [] of
                     Inl e \<Rightarrow> Inl e
                   | Inr s \<Rightarrow> Inr (slice_to max_length s), w)))"

definition get_links :: "env \<Rightarrow> fetcher \<Rightarrow> world \<Rightarrow> exc + string list" where
  "get_links E f w =
     (case soup f of
        None \<Rightarrow> Inr []
      | Some p \<Rightarrow> links_loop E (url f) (find_all [''a''] (objs w ! p)) [])"

text \<open>A fetcher's reference points at a document that exists.\<close>

definition valid :: "fetcher \<Rightarrow> world \<Rightarrow> bool" where
  "valid f w = (case soup f of None \<Rightarrow> True | Some p \<Rightarrow> p < length (objs w))"

text \<open>
  The copy made by \<open>get_contents\<close> is faithful when the serialised body parses back to
  a document holding that body and nothing else.
\<close>

definition faithful_copy :: "env \<Rightarrow> soup \<Rightarrow> bool" where
  "faithful_copy E doc =
     (case find_tag ''body'' doc of
        None \<Rightarrow> True
      | Some b \<Rightarrow> html_parse E (render E b) = Inr [b])"

text \<open>
  The body text as \<open>get_contents\<close> computes it (lines 115 to 122 of the source): the text
  of the document that parsing the serialised body returns, after the tags have been taken
  out of that document; the exception of the parser when it raises; the empty string
  without a body.
\<close>

definition copy_text :: "env \<Rightarrow> soup \<Rightarrow> exc + string" where
  "copy_text E doc =
     (case find_tag ''body'' doc of
        Some b \<Rightarrow>
          (case html_parse E (render E b) of
             Inl e \<Rightarrow> Inl e
           | Inr body_copy \<Rightarrow> Inr (get_text ''\<newline>'' (decompose_all irrelevant body_copy)))
      | None \<Rightarrow> Inr [])"

subsection \<open>The two orders of use of one fetcher\<close>

text \<open>
  Both methods are called on the same object, one after the other; each result is kept
  as it is, a raised exception included.
\<close>

definition contents_then_links ::
    "env \<Rightarrow> fetcher \<Rightarrow> int \<Rightarrow> world \<Rightarrow> (exc + string) \<times> (exc + string list)" where
  "contents_then_links E f max_length w =
     (let (c, w1) = get_contents E f max_length w;
          l = get_links E f w1
      in (c, l))"

definition links_then_contents ::
    "env \<Rightarrow> fetcher \<Rightarrow> int \<Rightarrow> world \<Rightarrow> (exc + string) \<times> (exc + string list)" where
  "links_then_contents E f max_length w =
     (let l = get_links E f w;
          (c, w1) = get_contents E f max_length w
      in (c, l))"

section \<open>What the specification describes\<close>

text \<open>
  The hrefs that link extraction keeps, in the specification's words: of every anchor, in
  document order, the href when it is present and not empty; nothing is removed for being
  a duplicate.
\<close>

fun href_of :: "node \<Rightarrow> string list" where
  "href_of link = (case get_attr link ''href'' of None \<Rightarrow> [] | Some h \<Rightarrow> [h])"

definition kept_hrefs :: "soup \<Rightarrow> string list" where
  "kept_hrefs doc = filter (\<lambda>h. h \<noteq> []) (concat (map href_of (find_all [''a''] doc)))"

text \<open>
  The strings that count as visible, in the specification's words: the text nodes (plain
  strings and CDATA sections) in document order, where a node of kind script, style, image
  or input contributes nothing, whatever is below it.
\<close>

fun visible :: "node \<Rightarrow> string list" where
  "visible (NavigableString s) = [s]"
| "visible (SubclassString c s) = (if c = CData then [s] else [])"
| "visible (Tag n a cs) =
     (if n \<in> set irrelevant then [] else concat (map visible cs))"

definition visible_strings :: "node list \<Rightarrow> string list" where
  "visible_strings ns = concat (map visible ns)"

text \<open>
  The text made of the visible strings: each is trimmed, those that are empty after
  trimming are dropped, the rest is joined by a single newline.
\<close>

definition visible_text :: "node list \<Rightarrow> string" where
  "visible_text ns =
     join ''\<newline>'' (filter (\<lambda>s. s \<noteq> []) (map strip (visible_strings ns)))"


text \<open>Reading a decimal numeral back.\<close>

definition read_nat :: "string \<Rightarrow> nat" where
  "read_nat s = foldl (\<lambda>acc c. 10 * acc + (of_char c - 48)) 0 s"

section \<open>A library double for concrete pages\<close>

text \<open>
  Two cases of relative-URL resolution, enough for the pages evaluated below: a reference
  that holds \<open>://\<close> is absolute and is returned as it is; any other reference is appended
  to scheme and host of the base.
\<close>

fun has_scheme :: "string \<Rightarrow> bool" where
  "has_scheme (a # b # c # r) =
     ((a = CHR '':'' \<and> b = CHR ''/'' \<and> c = CHR ''/'') \<or> has_scheme (b # c # r))"
| "has_scheme r = False"

definition origin :: "string \<Rightarrow> string" where
  "origin b =
     (let scheme = takeWhile (\<lambda>c. c \<noteq> CHR '':'') b;
          rest = drop (length scheme + 3) b
      in scheme @ ''://'' @ takeWhile (\<lambda>c. c \<noteq> CHR ''/'') rest)"

definition join_simple :: "string \<Rightarrow> string \<Rightarrow> exc + string" where
  "join_simple base ref = Inr (if has_scheme ref then ref else origin base @ ref)"

text \<open>
  The HTTP client sends a request only to a URL whose scheme is http or https, in upper
  or lower case. (The code of an upper-case letter is from 65 to 90; 32 more is the code of
  the lower-case letter.)
\<close>

definition lower_code :: "char \<Rightarrow> nat" where
  "lower_code c = (if 65 \<le> (of_char c :: nat) \<and> (of_char c :: nat) \<le> 90
                   then of_char c + 32 else of_char c)"

definition is_http_url :: "string \<Rightarrow> bool" where
  "is_http_url u =
     (map lower_code (take 7 u) = map lower_code ''http://''
      \<or> map lower_code (take 8 u) = map lower_code ''https://'')"

text \<open>
  Serialising a tree and parsing the result again gives the tree back with one difference
  that matters for the text: strings that stand next to each other come back as one string.
\<close>

fun merge_strings :: "node list \<Rightarrow> node list" where
  "merge_strings [] = []"
| "merge_strings (NavigableString s # NavigableString t # rest) =
     merge_strings (NavigableString (s @ t) # rest)"
| "merge_strings (Tag n a cs # rest) = Tag n a (merge_strings cs) # merge_strings rest"
| "merge_strings (x # rest) = x # merge_strings rest"

text \<open>
  The double stands for one page. The network answers a request to an http(s) URL with
  \<open>r\<close>; for any other URL the client raises before it sends anything (\<open>InvalidSchema\<close> for
  another scheme, \<open>MissingSchema\<close> without one). The parser returns the page \<open>doc\<close> for the
  content of a response. The double does not serialise: every body is rendered as the same
  token, and the parser answers that token with the body of the page, adjacent strings
  merged.
\<close>

definition page_env :: "outcome \<Rightarrow> soup \<Rightarrow> env" where
  "page_env r doc =
     \<lparr>http_get = (\<lambda>u. if is_http_url u then r
                      else if CHR '':'' \<in> set u then Raises InvalidSchema
                      else Raises MissingSchema),
      html_parse = (\<lambda>s. if s = ''<body>''
                           then (case find_tag ''body'' doc of
                                   Some b \<Rightarrow> Inr (merge_strings [b])
                                 | None \<Rightarrow> Inr [])
                           else Inr doc),
      render = (\<lambda>n. ''<body>''),
      urljoin = join_simple\<rparr>"

section \<open>Concrete pages\<close>

text \<open>\<open><title>a<b>c</b></title>\<close> in the head, one paragraph in the body.\<close>

definition mixed_title_page :: soup where
  "mixed_title_page =
     [Tag ''html'' []
        [Tag ''head'' []
           [Tag ''title'' [] [NavigableString ''a'', Tag ''b'' [] [NavigableString ''c'']]],
         Tag ''body'' [] [Tag ''p'' [] [NavigableString ''hello'']]]]"

text \<open>\<open><title></title>\<close> in the head, a word in the body.\<close>

definition empty_title_page :: soup where
  "empty_title_page =
     [Tag ''html'' []
        [Tag ''head'' [] [Tag ''title'' [] []],
         Tag ''body'' [] [NavigableString ''x'']]]"

text \<open>A title that is one string, one paragraph in the body.\<close>

definition plain_page :: soup where
  "plain_page =
     [Tag ''html'' []
        [Tag ''head'' [] [Tag ''title'' [] [NavigableString ''Home'']],
         Tag ''body'' [] [Tag ''p'' [] [NavigableString ''hello'']]]]"

text \<open>Two anchors, one of them around an image, and a script between them.\<close>

definition links_page :: soup where
  "links_page =
     [Tag ''html'' []
        [Tag ''head'' [] [Tag ''title'' [] [NavigableString ''Links'']],
         Tag ''body'' []
           [Tag ''a'' [(''href'', ''/x'')]
              [Tag ''img'' [(''src'', ''i.png'')] [], NavigableString ''X''],
            Tag ''script'' [] [SubclassString Script ''evil()''],
            Tag ''a'' [(''href'', ''https://y.test'')] [NavigableString ''Y'']]]]"

text \<open>
  The three anchors \<open><a href="/x">\<close>, \<open><a href="https://y.test">\<close> and \<open><a>\<close>, in this
  order, in the body.
\<close>

definition anchors_page :: soup where
  "anchors_page =
     [Tag ''html'' []
        [Tag ''body'' []
           [Tag ''a'' [(''href'', ''/x'')] [],
            Tag ''a'' [(''href'', ''https://y.test'')] [],
            Tag ''a'' [] []]]]"

text \<open>\<open><p>hi</p><script>evil()</script>\<close> in the body, no title.\<close>

definition script_page :: soup where
  "script_page =
     [Tag ''html'' []
        [Tag ''body'' []
           [Tag ''p'' [] [NavigableString ''hi''],
            Tag ''script'' [] [SubclassString Script ''evil()'']]]]"



text \<open>\<open><title>My <!--c-->page</title>\<close>: three children in the title tag.\<close>

definition split_title_page :: soup where
  "split_title_page =
     [Tag ''html'' []
        [Tag ''head'' []
           [Tag ''title'' [] [NavigableString ''My '', SubclassString Comment ''c'', NavigableString ''page'']],
         Tag ''body'' [] [Tag ''p'' [] [NavigableString ''hello'']]]]"



text \<open>
  \<open><svg><title><script>evil()</script></title></svg><p>hi</p>\<close> in the body: the first
  title tag of the document lies in the body and its only child is a script.
\<close>

definition title_script_page :: soup where
  "title_script_page =
     [Tag ''html'' []
        [Tag ''body'' []
           [Tag ''svg'' []
              [Tag ''title'' [] [Tag ''script'' [] [SubclassString Script ''evil()'']]],
            Tag ''p'' [] [NavigableString ''hi'']]]]"

section \<open>Facts about the library functions\<close>

lemma find_tag_Some:
  "find_tag name ns = Some t \<Longrightarrow> \<exists>a cs. t = Tag name a cs"
proof -
  assume "find_tag name ns = Some t"
  then have "is_tag_named [name] t"
    unfolding find_tag_def by (auto simp: find_Some_iff)
  then show ?thesis by (cases t) simp_all
qed

lemma all_strings_Tag: "all_strings [Tag n a cs] = all_strings cs"
  by (simp add: all_strings_def descendants_def)

lemma get_text_Tag: "get_text sep [Tag n a cs] = get_text sep cs"
  by (simp add: get_text_def all_strings_Tag)

lemma decompose_all_body:
  "decompose_all irrelevant [Tag ''body'' a cs] = [Tag ''body'' a (decompose_all irrelevant cs)]"
  by (simp add: decompose_all_def irrelevant_def)

lemma length_slice_to: "0 \<le> n \<Longrightarrow> int (length (slice_to n s)) \<le> n"
  by (simp add: slice_to_def)

lemma slice_to_nonneg: "0 \<le> n \<Longrightarrow> slice_to n s = take (nat n) s"
  by (simp add: slice_to_def)

lemma slice_to_short: "int (length s) \<le> n \<Longrightarrow> slice_to n s = s"
  by (simp add: slice_to_def)

section \<open>What the two content extractors compute\<close>

lemma contents_try_value:
  assumes "get_and_check r = Inr content" and "html_parse E content = Inr doc"
  shows "contents_try E r =
           (case add_title (title_of doc) (body_text doc) of
              Inl e \<Rightarrow> Inl e
            | Inr s \<Rightarrow> Inr (slice_to 2000 s))"
  using assms by (simp add: contents_try_def)

lemma get_contents_value:
  assumes "soup f = Some p" and "faithful_copy E (objs w ! p)"
  shows "fst (get_contents E f n w) =
           (case add_title (title_of (objs w ! p)) (body_text (objs w ! p)) of
              Inl e \<Rightarrow> Inl e
            | Inr s \<Rightarrow> Inr (slice_to n s))"
proof (cases "find_tag ''body'' (objs w ! p)")
  case None
  then show ?thesis
    using assms(1) by (simp add: get_contents_def body_text_def)
next
  case (Some b)
  then obtain a cs where b: "b = Tag ''body'' a cs"
    using find_tag_Some by blast
  have copy: "html_parse E (render E b) = Inr [b]"
    using assms(2) Some by (simp add: faithful_copy_def)
  have txt_eq: "body_text (objs w ! p) = get_text ''\<newline>'' (decompose_all irrelevant cs)"
    using Some b by (simp add: body_text_def)
  show ?thesis
    using assms(1) Some copy
    by (simp add: get_contents_def new_object_def txt_eq b decompose_all_body get_text_Tag
             split: sum.splits)
qed

section \<open>A title that is not one string\<close>

text \<open>
  Claim C10. There are fetched documents whose title tag is present and not empty, yet
  whose \<open>.string\<close> is \<open>None\<close>, for instance \<open><title>a<b>c</b></title>\<close>. For every
  document whose title tag has no \<open>.string\<close>: \<open>fetch_website_contents\<close> returns
  \<open>[Error: Unexpected error for <url>]\<close> and no content of the page, and \<open>get_contents\<close>
  on the same document raises TypeError, which nothing catches.
\<close>

theorem title_without_string:
  assumes "find_tag ''title'' doc = Some t" and "string_of t = None"
    and "get_and_check (http_get E u) = Inr content" and "html_parse E content = Inr doc"
    and "soup f = Some p" and "objs w ! p = doc" and "faithful_copy E doc"
  shows "fst (fetch_website_contents E u v) = ''[Error: Unexpected error for '' @ u @ '']''
         \<and> fst (get_contents E f max_length w) = Inl TypeError"
proof -
  have title: "title_of doc = None"
    using assms(1,2) by (simp add: title_of_def)
  have "contents_try E (http_get E u) = Inl TypeError"
    using contents_try_value [OF assms(3,4)] title by (simp add: add_title_def)
  then have a: "fst (fetch_website_contents E u v) = ''[Error: Unexpected error for '' @ u @ '']''"
    by (simp add: fetch_website_contents_def requests_get_def contents_except_def)
  have b: "fst (get_contents E f max_length w) = Inl TypeError"
    using get_contents_value [of f p E w max_length] assms(5,6,7) title
    by (simp add: add_title_def)
  show ?thesis using a b by simp
qed

theorem title_without_string_witness:
  "find_tag ''title'' mixed_title_page
     = Some (Tag ''title'' [] [NavigableString ''a'', Tag ''b'' [] [NavigableString ''c'']])
   \<and> string_of (Tag ''title'' [] [NavigableString ''a'', Tag ''b'' [] [NavigableString ''c'']]) = None
   \<and> fst (fetch_website_contents (page_env (Response 200 ''page'') mixed_title_page)
            ''http://site.test'' \<lparr>objs = [], reqs = []\<rparr>)
       = ''[Error: Unexpected error for http://site.test]''
   \<and> fst (get_contents (page_env (Response 200 ''page'') mixed_title_page)
            \<lparr>url = ''http://site.test'', soup = Some 0\<rparr> 2000
            \<lparr>objs = [mixed_title_page], reqs = [''http://site.test'']\<rparr>) = Inl TypeError"
proof -
  let ?t = "Tag ''title'' [] [NavigableString ''a'', Tag ''b'' [] [NavigableString ''c'']]"
  let ?E = "page_env (Response 200 ''page'') mixed_title_page"
  let ?w = "\<lparr>objs = [mixed_title_page], reqs = [''http://site.test'']\<rparr>"
  let ?f = "\<lparr>url = ''http://site.test'', soup = Some 0\<rparr>"
  have h1: "find_tag ''title'' mixed_title_page = Some ?t"
    by (simp add: mixed_title_page_def find_tag_def descendants_def)
  have h2: "string_of ?t = None" by simp
  have h3: "get_and_check (http_get ?E ''http://site.test'') = Inr ''page''"
    by (simp add: page_env_def is_http_url_def lower_code_def get_and_check_def raise_for_status_def)
  have h4: "html_parse ?E ''page'' = Inr mixed_title_page"
    by (simp add: page_env_def is_http_url_def lower_code_def)
  have h5: "soup ?f = Some 0" by simp
  have h6: "objs ?w ! 0 = mixed_title_page" by simp
  have h7: "faithful_copy ?E mixed_title_page"
    by (simp add: faithful_copy_def page_env_def is_http_url_def lower_code_def mixed_title_page_def find_tag_def descendants_def)
  have a: "fst (fetch_website_contents ?E ''http://site.test'' \<lparr>objs = [], reqs = []\<rparr>)
             = ''[Error: Unexpected error for '' @ ''http://site.test'' @ '']''"
    using title_without_string
            [OF h1 h2 h3 h4 h5 h6 h7, where v = "\<lparr>objs = [], reqs = []\<rparr>" and max_length = 2000]
    by (rule conjunct1)
  have b: "fst (get_contents ?E ?f 2000 ?w) = Inl TypeError"
    using title_without_string
            [OF h1 h2 h3 h4 h5 h6 h7, where v = "\<lparr>objs = [], reqs = []\<rparr>" and max_length = 2000]
    by (rule conjunct2)
  show ?thesis using h1 h2 a b by simp
qed

section \<open>Decimal numerals and the results of the module-level functions\<close>

lemma of_char_digit: "d < 10 \<Longrightarrow> of_char (digit d) = (48 + d :: nat)"
proof -
  assume "d < 10"
  then have "d = 0 \<or> d = 1 \<or> d = 2 \<or> d = 3 \<or> d = 4
      \<or> d = 5 \<or> d = 6 \<or> d = 7 \<or> d = 8 \<or> d = 9"
    by arith
  then show ?thesis
    by (elim disjE) (simp_all add: digit_def)
qed

lemma read_nat_snoc: "read_nat (s @ [c]) = 10 * read_nat s + (of_char c - 48)"
  by (simp add: read_nat_def)

lemma read_nat_str_nat: "read_nat (str_nat n) = n"
proof (induction n rule: str_nat.induct)
  case (1 n)
  show ?case
  proof (cases "n < 10")
    case True
    then show ?thesis
      by (subst str_nat.simps) (simp add: read_nat_def of_char_digit)
  next
    case False
    then have "read_nat (str_nat (n div 10)) = n div 10"
      using "1" by simp
    then show ?thesis
      using False
      by (subst str_nat.simps) (simp add: read_nat_snoc of_char_digit)
  qed
qed

lemma fetch_website_contents_value:
  "fst (fetch_website_contents E u w) =
     (case contents_try E (http_get E u) of Inl e \<Rightarrow> contents_except u e | Inr s \<Rightarrow> s)"
  by (simp add: fetch_website_contents_def requests_get_def)

lemma fetch_website_links_value:
  "fst (fetch_website_links E u w) =
     (case links_try E u (http_get E u) of Inl e \<Rightarrow> [] | Inr links \<Rightarrow> links)"
  by (simp add: fetch_website_links_def requests_get_def)

lemma contents_try_fails:
  "get_and_check r = Inl e \<Longrightarrow> contents_try E r = Inl e"
  by (simp add: contents_try_def)

lemma links_try_fails:
  "get_and_check r = Inl e \<Longrightarrow> links_try E u r = Inl e"
  by (simp add: links_try_def)

lemma WebsiteFetcher_fails:
  assumes "get_and_check (http_get E u) = Inl e" and "is_RequestException e"
  shows "WebsiteFetcher E u w = (Inr \<lparr>url = u, soup = None\<rparr>, w\<lparr>reqs := reqs w @ [u]\<rparr>)"
  using assms by (simp add: WebsiteFetcher_def fetch_def requests_get_def)

section \<open>Failed fetches\<close>

text \<open>
  Claim C7. When the request (or the status check) raises a \<open>RequestException\<close>, nothing
  is raised out of the module: \<open>fetch_website_links\<close> returns the empty list;
  the constructor of \<open>WebsiteFetcher\<close> sends one request and leaves the document absent;
  \<open>get_contents\<close> then returns \<open>[Error: Could not fetch <url>]\<close> and \<open>get_links\<close> the empty
  list, and neither changes the world, so no further request is sent;
  \<open>fetch_website_contents\<close> returns the sentinel of its \<open>except\<close> clauses, which for a
  connection failure is \<open>[Error: Could not connect to <url>]\<close>.
\<close>

theorem fetch_failure_sentinels:
  assumes "get_and_check (http_get E u) = Inl e" and "is_RequestException e"
  shows "fst (fetch_website_links E u w) = []
         \<and> WebsiteFetcher E u w = (Inr \<lparr>url = u, soup = None\<rparr>, w\<lparr>reqs := reqs w @ [u]\<rparr>)
         \<and> get_contents E \<lparr>url = u, soup = None\<rparr> max_length v
             = (Inr (''[Error: Could not fetch '' @ u @ '']''), v)
         \<and> get_links E \<lparr>url = u, soup = None\<rparr> v = Inr []
         \<and> fst (fetch_website_contents E u w) = contents_except u e
         \<and> (is_ConnectionError e \<longrightarrow>
              fst (fetch_website_contents E u w) = ''[Error: Could not connect to '' @ u @ '']'')"
proof -
  have a: "fst (fetch_website_links E u w) = []"
    by (simp add: fetch_website_links_value links_try_fails [OF assms(1)])
  have b: "fst (fetch_website_contents E u w) = contents_except u e"
    by (simp add: fetch_website_contents_value contents_try_fails [OF assms(1)])
  have c: "is_ConnectionError e \<longrightarrow> contents_except u e = ''[Error: Could not connect to '' @ u @ '']''"
    by (simp add: contents_except_def)
  have d: "get_contents E \<lparr>url = u, soup = None\<rparr> max_length v
             = (Inr (''[Error: Could not fetch '' @ u @ '']''), v)"
    by (simp add: get_contents_def)
  have e: "get_links E \<lparr>url = u, soup = None\<rparr> v = Inr []"
    by (simp add: get_links_def)
  show ?thesis
    using a b c d e WebsiteFetcher_fails [OF assms] by simp
qed

theorem fetch_failure_sentinels_witness:
  "get_and_check (http_get (page_env (Raises ConnectionError) []) ''http://down.test'')
     = Inl ConnectionError
   \<and> is_RequestException ConnectionError
   \<and> is_ConnectionError ConnectionError
   \<and> fst (fetch_website_contents (page_env (Raises ConnectionError) []) ''http://down.test''
            \<lparr>objs = [], reqs = []\<rparr>) = ''[Error: Could not connect to http://down.test]''
   \<and> fst (fetch_website_links (page_env (Raises ConnectionError) []) ''http://down.test''
            \<lparr>objs = [], reqs = []\<rparr>) = []
   \<and> WebsiteFetcher (page_env (Raises ConnectionError) []) ''http://down.test''
            \<lparr>objs = [], reqs = []\<rparr>
       = (Inr \<lparr>url = ''http://down.test'', soup = None\<rparr>,
          \<lparr>objs = [], reqs = [''http://down.test'']\<rparr>)
   \<and> get_contents (page_env (Raises ConnectionError) [])
            \<lparr>url = ''http://down.test'', soup = None\<rparr> 2000
            \<lparr>objs = [], reqs = [''http://down.test'']\<rparr>
       = (Inr ''[Error: Could not fetch http://down.test]'',
          \<lparr>objs = [], reqs = [''http://down.test'']\<rparr>)
   \<and> get_links (page_env (Raises ConnectionError) [])
            \<lparr>url = ''http://down.test'', soup = None\<rparr>
            \<lparr>objs = [], reqs = [''http://down.test'']\<rparr> = Inr []"
proof -
  let ?E = "page_env (Raises ConnectionError) []"
  have h1: "get_and_check (http_get ?E ''http://down.test'') = Inl ConnectionError"
    by (simp add: page_env_def is_http_url_def lower_code_def get_and_check_def)
  have h2: "is_RequestException ConnectionError" by simp
  show ?thesis
    using fetch_failure_sentinels [OF h1 h2, where w = "\<lparr>objs = [], reqs = []\<rparr>"
            and max_length = 2000 and v = "\<lparr>objs = [], reqs = [''http://down.test'']\<rparr>"] h1
    by (simp add: contents_except_def)
qed

section \<open>Timeouts\<close>

text \<open>
  Claim C5 at a timeout while connecting. \<open>ConnectTimeout\<close> is a \<open>Timeout\<close> and a
  \<open>ConnectionError\<close>; the clause for \<open>ConnectionError\<close> comes first, so the request is
  reported as \<open>[Error: Could not connect to <url>]\<close>. A timeout while reading reaches the
  clause for \<open>Timeout\<close>.
\<close>

theorem connect_timeout_caught_as_connection_error:
  "is_Timeout ConnectTimeout
   \<and> fst (fetch_website_contents (E\<lparr>http_get := \<lambda>v. Raises ConnectTimeout\<rparr>) u w)
       = ''[Error: Could not connect to '' @ u @ '']''
   \<and> fst (fetch_website_contents (E\<lparr>http_get := \<lambda>v. Raises ReadTimeout\<rparr>) u w)
       = ''[Error: Timeout for '' @ u @ '']''"
  by (simp add: fetch_website_contents_value contents_try_def get_and_check_def
        contents_except_def)

section \<open>Exceptions that leave the module\<close>

text \<open>
  Claim C4 at a page with an empty title tag. The constructor of \<open>WebsiteFetcher\<close> fetches and
  parses the page; \<open>get_contents\<close> then raises TypeError, where \<open>fetch_website_contents\<close> on
  the same page returns its sentinel. The constructor itself lets an exception of the parser
  through.
\<close>

theorem get_contents_raises_TypeError:
  "WebsiteFetcher (page_env (Response 200 ''page'') empty_title_page) ''http://site.test''
       \<lparr>objs = [], reqs = []\<rparr>
     = (Inr \<lparr>url = ''http://site.test'', soup = Some 0\<rparr>,
        \<lparr>objs = [empty_title_page], reqs = [''http://site.test'']\<rparr>)
   \<and> fst (get_contents (page_env (Response 200 ''page'') empty_title_page)
            \<lparr>url = ''http://site.test'', soup = Some 0\<rparr> 2000
            \<lparr>objs = [empty_title_page], reqs = [''http://site.test'']\<rparr>) = Inl TypeError
   \<and> fst (fetch_website_contents (page_env (Response 200 ''page'') empty_title_page)
            ''http://site.test'' \<lparr>objs = [], reqs = []\<rparr>)
       = ''[Error: Unexpected error for http://site.test]''
   \<and> fst (WebsiteFetcher
            ((page_env (Response 200 ''page'') empty_title_page)
               \<lparr>html_parse := \<lambda>s. Inl OtherException\<rparr>)
            ''http://site.test'' \<lparr>objs = [], reqs = []\<rparr>) = Inl OtherException"
proof -
  let ?E = "page_env (Response 200 ''page'') empty_title_page"
  let ?f = "\<lparr>url = ''http://site.test'', soup = Some 0\<rparr>"
  let ?w = "\<lparr>objs = [empty_title_page], reqs = [''http://site.test'']\<rparr>"
  have title: "title_of empty_title_page = None"
    by (simp add: title_of_def empty_title_page_def find_tag_def descendants_def)
  have chk: "get_and_check (http_get ?E ''http://site.test'') = Inr ''page''"
    by (simp add: page_env_def is_http_url_def lower_code_def get_and_check_def raise_for_status_def)
  have prs: "html_parse ?E ''page'' = Inr empty_title_page"
    by (simp add: page_env_def is_http_url_def lower_code_def)
  have a: "WebsiteFetcher ?E ''http://site.test'' \<lparr>objs = [], reqs = []\<rparr> = (Inr ?f, ?w)"
    using chk prs
    by (simp add: WebsiteFetcher_def fetch_def requests_get_def new_object_def)
  have fc: "faithful_copy ?E (objs ?w ! 0)"
    by (simp add: faithful_copy_def page_env_def is_http_url_def lower_code_def empty_title_page_def find_tag_def
          descendants_def)
  have b: "fst (get_contents ?E ?f 2000 ?w) = Inl TypeError"
    using get_contents_value [of ?f 0 ?E ?w 2000] fc title by (simp add: add_title_def)
  have c: "fst (fetch_website_contents ?E ''http://site.test'' \<lparr>objs = [], reqs = []\<rparr>)
             = ''[Error: Unexpected error for http://site.test]''"
    using contents_try_value [OF chk prs] title
    by (simp add: fetch_website_contents_value add_title_def contents_except_def)
  have d: "fst (WebsiteFetcher (?E\<lparr>html_parse := \<lambda>s. Inl OtherException\<rparr>)
                  ''http://site.test'' \<lparr>objs = [], reqs = []\<rparr>) = Inl OtherException"
    by (simp add: WebsiteFetcher_def fetch_def requests_get_def page_env_def is_http_url_def lower_code_def
          get_and_check_def raise_for_status_def)
  show ?thesis using a b c d by simp
qed

section \<open>One fetcher, two extractions\<close>

lemmas eval_simps = page_env_def is_http_url_def lower_code_def find_tag_def find_all_def descendants_def title_of_def
  get_and_check_def raise_for_status_def get_text_def all_strings_def decompose_all_def
  irrelevant_def strip_def isspace_def add_title_def slice_to_def join_simple_def origin_def

lemma get_contents_keeps:
  assumes "soup f = Some p" and "p < length (objs w)"
  shows "objs (snd (get_contents E f n w)) ! p = objs w ! p"
  using assms
  by (simp add: get_contents_def new_object_def nth_append Let_def
           split: option.splits sum.splits)

lemma get_contents_reqs: "reqs (snd (get_contents E f n w)) = reqs w"
  by (simp add: get_contents_def new_object_def Let_def split: option.splits sum.splits)

lemma get_links_cong:
  assumes "soup f = Some p" and "objs w' ! p = objs w ! p"
  shows "get_links E f w' = get_links E f w"
  using assms by (simp add: get_links_def)

text \<open>
  Claim C1. On one \<open>WebsiteFetcher\<close>, \<open>get_contents\<close> followed by \<open>get_links\<close> yields the
  same pair of results as \<open>get_links\<close> followed by \<open>get_contents\<close>. The tags are taken out
  of a new document, so the document of the fetcher is the same before and after
  \<open>get_contents\<close>, and \<open>get_links\<close> finds every anchor of it.
\<close>

theorem extraction_order:
  assumes "valid f w"
  shows "contents_then_links E f max_length w = links_then_contents E f max_length w
         \<and> (case soup f of
               None \<Rightarrow> True
             | Some p \<Rightarrow>
                 objs (snd (get_contents E f max_length w)) ! p = objs w ! p
                 \<and> find_all [''a''] (objs (snd (get_contents E f max_length w)) ! p)
                     = find_all [''a''] (objs w ! p))"
proof (cases "soup f")
  case None
  then show ?thesis
    by (simp add: contents_then_links_def links_then_contents_def get_links_def
          split: prod.splits)
next
  case (Some p)
  then have "p < length (objs w)"
    using assms by (simp add: valid_def)
  then have keep: "objs (snd (get_contents E f max_length w)) ! p = objs w ! p"
    using Some by (rule get_contents_keeps [rotated])
  then have "get_links E f (snd (get_contents E f max_length w)) = get_links E f w"
    using Some by (rule get_links_cong [rotated])
  then have "contents_then_links E f max_length w = links_then_contents E f max_length w"
    by (simp add: contents_then_links_def links_then_contents_def case_prod_unfold)
  then show ?thesis
    using Some keep by simp
qed

theorem extraction_order_witness:
  "valid \<lparr>url = ''https://site.test/page'', soup = Some 0\<rparr> \<lparr>objs = [links_page], reqs = []\<rparr>
   \<and> contents_then_links (page_env (Response 200 ''page'') links_page)
        \<lparr>url = ''https://site.test/page'', soup = Some 0\<rparr> 2000 \<lparr>objs = [links_page], reqs = []\<rparr>
       = (Inr ''Links\<newline>\<newline>X\<newline>Y'', Inr [''https://site.test/x'', ''https://y.test''])
   \<and> links_then_contents (page_env (Response 200 ''page'') links_page)
        \<lparr>url = ''https://site.test/page'', soup = Some 0\<rparr> 2000 \<lparr>objs = [links_page], reqs = []\<rparr>
       = (Inr ''Links\<newline>\<newline>X\<newline>Y'', Inr [''https://site.test/x'', ''https://y.test''])"
proof -
  let ?E = "page_env (Response 200 ''page'') links_page"
  let ?f = "\<lparr>url = ''https://site.test/page'', soup = Some 0\<rparr>"
  let ?w = "\<lparr>objs = [links_page], reqs = []\<rparr>"
  have v: "valid ?f ?w" by (simp add: valid_def)
  have l: "links_then_contents ?E ?f 2000 ?w
             = (Inr ''Links\<newline>\<newline>X\<newline>Y'', Inr [''https://site.test/x'', ''https://y.test''])"
    by (simp add: links_then_contents_def get_links_def get_contents_def new_object_def
          links_page_def eval_simps)
  have "contents_then_links ?E ?f 2000 ?w = links_then_contents ?E ?f 2000 ?w"
    using extraction_order [OF v, of ?E 2000] by (rule conjunct1)
  then show ?thesis using v l by simp
qed

section \<open>Link extraction\<close>

lemma links_loop_value:
  assumes "\<forall>h \<in> set (filter (\<lambda>h. h \<noteq> []) (concat (map href_of ls))). urljoin E u h = Inr (g h)"
  shows "links_loop E u ls acc
           = Inr (acc @ map g (filter (\<lambda>h. h \<noteq> []) (concat (map href_of ls))))"
  using assms
proof (induction ls arbitrary: acc)
  case Nil
  then show ?case by simp
next
  case (Cons l ls)
  show ?case
  proof (cases "get_attr l ''href''")
    case None
    then show ?thesis using Cons by simp
  next
    case (Some h)
    show ?thesis
    proof (cases "h = []")
      case True
      then show ?thesis using Some Cons by simp
    next
      case False
      then have "urljoin E u h = Inr (g h)"
        using Some Cons.prems by simp
      then show ?thesis
        using Some False Cons by simp
    qed
  qed
qed

text \<open>
  Claim C3. Link extraction returns, for the anchors in document order, the href of each
  anchor that has one and whose href is not empty, joined with the URL of the page by
  \<open>urljoin\<close>; an anchor without href or with an empty href adds nothing, and nothing is
  removed for being a duplicate. (The premise says that \<open>urljoin\<close> returns for these hrefs.)
  For the anchors \<open>/x\<close>, \<open>https://y.test\<close> and one without href on the page
  \<open>https://site.test/page\<close> the result is \<open>https://site.test/x\<close>, \<open>https://y.test\<close>:
  this is the instance proved after the theorem.
\<close>

theorem link_extraction:
  assumes "\<forall>h \<in> set (kept_hrefs doc). urljoin E u h = Inr (g h)"
  shows "(soup f = Some p \<and> objs w ! p = doc \<and> url f = u \<longrightarrow>
            get_links E f w = Inr (map g (kept_hrefs doc)))
         \<and> (get_and_check (http_get E u) = Inr content \<and> html_parse E content = Inr doc \<longrightarrow>
            fst (fetch_website_links E u v) = map g (kept_hrefs doc))"
proof -
  have loop: "links_loop E u (find_all [''a''] doc) [] = Inr (map g (kept_hrefs doc))"
    using links_loop_value [of "find_all [''a''] doc" E u g "[]"] assms
    by (simp add: kept_hrefs_def)
  have a: "soup f = Some p \<and> objs w ! p = doc \<and> url f = u \<longrightarrow>
             get_links E f w = Inr (map g (kept_hrefs doc))"
    using loop by (auto simp: get_links_def)
  have b: "get_and_check (http_get E u) = Inr content \<and> html_parse E content = Inr doc \<longrightarrow>
             fst (fetch_website_links E u v) = map g (kept_hrefs doc)"
    using loop by (auto simp: fetch_website_links_def requests_get_def links_try_def)
  show ?thesis using a b by simp
qed

theorem link_extraction_witness:
  "kept_hrefs anchors_page = [''/x'', ''https://y.test'']
   \<and> urljoin (page_env (Response 200 ''page'') anchors_page) ''https://site.test/page'' ''/x''
       = Inr ''https://site.test/x''
   \<and> urljoin (page_env (Response 200 ''page'') anchors_page) ''https://site.test/page''
        ''https://y.test'' = Inr ''https://y.test''
   \<and> get_links (page_env (Response 200 ''page'') anchors_page)
        \<lparr>url = ''https://site.test/page'', soup = Some 0\<rparr> \<lparr>objs = [anchors_page], reqs = []\<rparr>
       = Inr [''https://site.test/x'', ''https://y.test'']
   \<and> fst (fetch_website_links (page_env (Response 200 ''page'') anchors_page)
        ''https://site.test/page'' \<lparr>objs = [], reqs = []\<rparr>)
       = [''https://site.test/x'', ''https://y.test'']"
proof -
  let ?E = "page_env (Response 200 ''page'') anchors_page"
  let ?u = "''https://site.test/page''"
  let ?g = "\<lambda>h. if has_scheme h then h else origin ?u @ h"
  let ?f = "\<lparr>url = ?u, soup = Some 0\<rparr>"
  let ?w = "\<lparr>objs = [anchors_page], reqs = []\<rparr>"
  have k: "kept_hrefs anchors_page = [''/x'', ''https://y.test'']"
    by (simp add: kept_hrefs_def anchors_page_def find_all_def descendants_def)
  have j1: "urljoin ?E ?u ''/x'' = Inr ''https://site.test/x''"
    by (simp add: page_env_def is_http_url_def lower_code_def join_simple_def origin_def)
  have j2: "urljoin ?E ?u ''https://y.test'' = Inr ''https://y.test''"
    by (simp add: page_env_def is_http_url_def lower_code_def join_simple_def)
  have h: "\<forall>h \<in> set (kept_hrefs anchors_page). urljoin ?E ?u h = Inr (?g h)"
    by (simp add: k page_env_def is_http_url_def lower_code_def join_simple_def)
  have g: "map ?g (kept_hrefs anchors_page) = [''https://site.test/x'', ''https://y.test'']"
    by (simp add: k origin_def)
  have c1: "soup ?f = Some 0 \<and> objs ?w ! 0 = anchors_page \<and> url ?f = ?u" by simp
  have c2: "get_and_check (http_get ?E ?u) = Inr ''page'' \<and> html_parse ?E ''page'' = Inr anchors_page"
    by (simp add: page_env_def is_http_url_def lower_code_def get_and_check_def raise_for_status_def)
  have a: "get_links ?E ?f ?w = Inr (map ?g (kept_hrefs anchors_page))"
    using link_extraction [OF h, where f = ?f and p = 0 and w = ?w] c1 by blast
  have b: "fst (fetch_website_links ?E ?u \<lparr>objs = [], reqs = []\<rparr>) = map ?g (kept_hrefs anchors_page)"
    using link_extraction [OF h, where content = "''page''" and v = "\<lparr>objs = [], reqs = []\<rparr>"] c2
    by blast
  show ?thesis
    using k j1 j2 a b g by simp
qed

section \<open>Script, style, image and input nodes\<close>

lemma descendants_append: "descendants (xs @ ys) = descendants xs @ descendants ys"
  by (simp add: descendants_def)

lemma all_strings_append: "all_strings (xs @ ys) = all_strings xs @ all_strings ys"
  by (simp add: all_strings_def descendants_append)

lemma all_strings_concat: "all_strings (concat xss) = concat (map all_strings xss)"
  by (induction xss) (simp_all add: all_strings_append all_strings_def descendants_def)

lemma find_all_append: "find_all names (xs @ ys) = find_all names xs @ find_all names ys"
  by (simp add: find_all_def descendants_append)

lemma find_all_concat: "find_all names (concat xss) = concat (map (find_all names) xss)"
  by (induction xss) (simp_all add: find_all_append find_all_def descendants_def)

lemma all_strings_decompose: "all_strings (decompose irrelevant n) = visible n"
proof (induction n rule: visible.induct)
  case (1 s)
  then show ?case by (simp add: all_strings_def descendants_def)
next
  case (2 s)
  then show ?case by (simp add: all_strings_def descendants_def)
next
  case (3 n a cs)
  show ?case
  proof (cases "n \<in> set irrelevant")
    case True
    then show ?thesis by (simp add: all_strings_def descendants_def)
  next
    case False
    have "all_strings (concat (map (decompose irrelevant) cs)) = concat (map visible cs)"
      using 3 False by (simp add: all_strings_concat cong: map_cong)
    then show ?thesis
      using False by (simp add: all_strings_Tag)
  qed
qed

lemma all_strings_decompose_all: "all_strings (decompose_all irrelevant ns) = visible_strings ns"
  by (simp add: decompose_all_def visible_strings_def all_strings_concat all_strings_decompose
        comp_def)

lemma find_all_Tag:
  "find_all names [Tag n a cs] = (if n \<in> set names then [Tag n a cs] else []) @ find_all names cs"
  by (simp add: find_all_def descendants_def)

lemma find_all_decompose: "find_all names (decompose names n) = []"
proof (induction n rule: decompose.induct)
  case (1 names n a cs)
  show ?case
  proof (cases "n \<in> set names")
    case True
    then show ?thesis by (simp add: find_all_def descendants_def)
  next
    case False
    then have "find_all names (concat (map (decompose names) cs)) = []"
      using 1 by (simp add: find_all_concat)
    then show ?thesis
      using False by (simp add: find_all_Tag)
  qed
next
  case (2 names s)
  then show ?case by (simp add: find_all_def descendants_def)
next
  case (3 names s)
  then show ?case by (simp add: find_all_def descendants_def)
qed

lemma find_all_decompose_all: "find_all names (decompose_all names ns) = []"
  by (simp add: decompose_all_def find_all_concat find_all_decompose comp_def)

section \<open>The body text of the two extractors\<close>

lemma add_title_Some: "add_title (Some t) s = Inr (t @ ''\<newline>\<newline>'' @ s)"
  by (simp add: add_title_def)

lemma get_text_decompose_all:
  "get_text ''\<newline>'' (decompose_all irrelevant ns) = visible_text ns"
  by (simp add: get_text_def visible_text_def all_strings_decompose_all)

lemma body_text_visible:
  "body_text doc =
     (case find_tag ''body'' doc of None \<Rightarrow> [] | Some b \<Rightarrow> visible_text (children b))"
  by (simp add: body_text_def get_text_decompose_all split: option.splits)

lemma copy_text_visible:
  "copy_text E doc =
     (case find_tag ''body'' doc of
        None \<Rightarrow> Inr []
      | Some b \<Rightarrow>
          (case html_parse E (render E b) of
             Inl e \<Rightarrow> Inl e
           | Inr body_copy \<Rightarrow> Inr (visible_text body_copy)))"
  by (simp add: copy_text_def get_text_decompose_all split: option.splits sum.splits)

lemma get_contents_result:
  assumes "soup f = Some p"
  shows "fst (get_contents E f n w) =
           (case copy_text E (objs w ! p) of
              Inl e \<Rightarrow> Inl e
            | Inr text \<Rightarrow>
                (case add_title (title_of (objs w ! p)) text of
                   Inl e \<Rightarrow> Inl e
                 | Inr s \<Rightarrow> Inr (slice_to n s)))"
  using assms
  by (simp add: get_contents_def copy_text_def new_object_def Let_def
           split: option.splits sum.splits)

lemma copy_text_faithful:
  assumes "faithful_copy E doc"
  shows "copy_text E doc = Inr (body_text doc)"
proof (cases "find_tag ''body'' doc")
  case None
  then show ?thesis by (simp add: copy_text_def body_text_def)
next
  case (Some b)
  then obtain a cs where b: "b = Tag ''body'' a cs"
    using find_tag_Some by blast
  have "html_parse E (render E b) = Inr [b]"
    using assms Some by (simp add: faithful_copy_def)
  then show ?thesis
    using Some b
    by (simp add: copy_text_def body_text_def decompose_all_body get_text_Tag)
qed

lemmas text_simps = visible_text_def visible_strings_def irrelevant_def strip_def isspace_def

text \<open>
  Claim C9, as the code has it. Before the body text is serialised, every script, style,
  img and input tag is taken out, together with what is below it: none is left, and the
  strings that remain are those of the text nodes that are not below such a tag.
  \<open>fetch_website_contents\<close> takes them out of the body; \<open>get_contents\<close> takes them out of
  the document that parsing the serialised body returns. So the body text of either output
  holds no content of such a tag. The title of the output is \<open>title_of\<close> of the document as
  it was fetched: it is read before anything is taken out. For the body
  \<open><p>hi</p><script>evil()</script>\<close> the body text is \<open>hi\<close>: this is the instance proved
  after the theorem.
\<close>

theorem irrelevant_removed:
  "find_all irrelevant (decompose_all irrelevant ns) = []
   \<and> all_strings (decompose_all irrelevant ns) = visible_strings ns
   \<and> body_text doc
       = (case find_tag ''body'' doc of
            None \<Rightarrow> []
          | Some b \<Rightarrow> visible_text (children b))
   \<and> copy_text E doc
       = (case find_tag ''body'' doc of
            None \<Rightarrow> Inr []
          | Some b \<Rightarrow>
              (case html_parse E (render E b) of
                 Inl e \<Rightarrow> Inl e
               | Inr body_copy \<Rightarrow> Inr (visible_text body_copy)))
   \<and> (get_and_check (http_get E u) = Inr content \<and> html_parse E content = Inr doc \<longrightarrow>
        contents_try E (http_get E u)
          = (case add_title (title_of doc) (body_text doc) of
               Inl e \<Rightarrow> Inl e
             | Inr s \<Rightarrow> Inr (slice_to 2000 s)))
   \<and> (soup f = Some p \<and> objs w ! p = doc \<longrightarrow>
        fst (get_contents E f max_length w)
          = (case copy_text E doc of
               Inl e \<Rightarrow> Inl e
             | Inr tx \<Rightarrow>
                 (case add_title (title_of doc) tx of
                    Inl e \<Rightarrow> Inl e
                  | Inr s \<Rightarrow> Inr (slice_to max_length s))))"
proof -
  have a: "get_and_check (http_get E u) = Inr content \<and> html_parse E content = Inr doc \<longrightarrow>
             contents_try E (http_get E u)
               = (case add_title (title_of doc) (body_text doc) of
                    Inl e \<Rightarrow> Inl e
                  | Inr s \<Rightarrow> Inr (slice_to 2000 s))"
    using contents_try_value [of "http_get E u" content E doc] by blast
  have b: "soup f = Some p \<and> objs w ! p = doc \<longrightarrow>
             fst (get_contents E f max_length w)
               = (case copy_text E doc of
                    Inl e \<Rightarrow> Inl e
                  | Inr tx \<Rightarrow>
                      (case add_title (title_of doc) tx of
                         Inl e \<Rightarrow> Inl e
                       | Inr s \<Rightarrow> Inr (slice_to max_length s)))"
    using get_contents_result [of f p E max_length w] by blast
  show ?thesis
    using find_all_decompose_all [of irrelevant ns] all_strings_decompose_all [of ns]
      body_text_visible [of doc] copy_text_visible [of E doc] a b
    by (intro conjI)
qed

theorem irrelevant_removed_witness:
  "find_tag ''body'' script_page
     = Some (Tag ''body'' []
               [Tag ''p'' [] [NavigableString ''hi''],
                Tag ''script'' [] [SubclassString Script ''evil()'']])
   \<and> visible_strings [Tag ''p'' [] [NavigableString ''hi''],
                       Tag ''script'' [] [SubclassString Script ''evil()'']] = [''hi'']
   \<and> body_text script_page = ''hi''
   \<and> copy_text (page_env (Response 200 ''page'') script_page) script_page = Inr ''hi''
   \<and> fst (fetch_website_contents (page_env (Response 200 ''page'') script_page)
            ''http://site.test'' \<lparr>objs = [], reqs = []\<rparr>) = ''No title found\<newline>\<newline>hi''
   \<and> fst (get_contents (page_env (Response 200 ''page'') script_page)
            \<lparr>url = ''http://site.test'', soup = Some 0\<rparr> 2000
            \<lparr>objs = [script_page], reqs = []\<rparr>) = Inr ''No title found\<newline>\<newline>hi''"
proof -
  let ?b = "Tag ''body'' []
              [Tag ''p'' [] [NavigableString ''hi''],
               Tag ''script'' [] [SubclassString Script ''evil()'']]"
  let ?E = "page_env (Response 200 ''page'') script_page"
  let ?f = "\<lparr>url = ''http://site.test'', soup = Some 0\<rparr>"
  let ?w = "\<lparr>objs = [script_page], reqs = []\<rparr>"
  have h: "find_tag ''body'' script_page = Some ?b"
    by (simp add: script_page_def find_tag_def descendants_def)
  have vis: "visible_strings (children ?b) = [''hi'']"
    by (simp add: visible_strings_def irrelevant_def)
  have vt: "visible_text (children ?b) = ''hi''"
    by (simp add: text_simps)
  have vc: "visible_text [?b] = ''hi''"
    by (simp add: text_simps)
  have t: "title_of script_page = Some ''No title found''"
    by (simp add: title_of_def script_page_def find_tag_def descendants_def)
  have rp: "html_parse ?E (render ?E ?b) = Inr [?b]"
    using h by (simp add: page_env_def)
  have c1: "get_and_check (http_get ?E ''http://site.test'') = Inr ''page''
            \<and> html_parse ?E ''page'' = Inr script_page"
    by (simp add: page_env_def is_http_url_def lower_code_def get_and_check_def raise_for_status_def)
  have c2: "soup ?f = Some 0 \<and> objs ?w ! 0 = script_page"
    by simp
  note i = irrelevant_removed [where doc = script_page and E = ?E and u = "''http://site.test''"
      and content = "''page''" and f = ?f and p = 0 and w = ?w and max_length = 2000]
  note i_body = i [THEN conjunct2, THEN conjunct2, THEN conjunct1]
  note i_copy = i [THEN conjunct2, THEN conjunct2, THEN conjunct2, THEN conjunct1]
  note i_try = i [THEN conjunct2, THEN conjunct2, THEN conjunct2, THEN conjunct2, THEN conjunct1]
  note i_get = i [THEN conjunct2, THEN conjunct2, THEN conjunct2, THEN conjunct2, THEN conjunct2]
  have bt: "body_text script_page = ''hi''"
    using i_body h vt by simp
  have ct: "copy_text ?E script_page = Inr ''hi''"
    using i_copy h rp vc by simp
  have a: "contents_try ?E (http_get ?E ''http://site.test'') = Inr ''No title found\<newline>\<newline>hi''"
    using i_try c1 bt t by (simp add: add_title_def slice_to_def)
  have b: "fst (get_contents ?E ?f 2000 ?w) = Inr ''No title found\<newline>\<newline>hi''"
    using i_get c2 ct t by (simp add: add_title_def slice_to_def)
  show ?thesis
    using h vis bt ct a b by (simp add: fetch_website_contents_value)
qed

text \<open>
  Claim C9 as stated says that no content of a script appears in the output. On the page
  whose body is \<open><svg><title><script>evil()</script></title></svg><p>hi</p>\<close> the first
  title tag of the document lies in the body, its \<open>.string\<close> is the string of the script,
  and both extractors return \<open>evil()\<close> as the title of the output.
\<close>

theorem irrelevant_removed_counterexample:
  "fst (fetch_website_contents (page_env (Response 200 ''page'') title_script_page)
          ''http://site.test'' \<lparr>objs = [], reqs = []\<rparr>) = ''evil()\<newline>\<newline>hi''
   \<and> fst (get_contents (page_env (Response 200 ''page'') title_script_page)
            \<lparr>url = ''http://site.test'', soup = Some 0\<rparr> 2000
            \<lparr>objs = [title_script_page], reqs = []\<rparr>) = Inr ''evil()\<newline>\<newline>hi''"
proof -
  let ?E = "page_env (Response 200 ''page'') title_script_page"
  let ?f = "\<lparr>url = ''http://site.test'', soup = Some 0\<rparr>"
  let ?w = "\<lparr>objs = [title_script_page], reqs = []\<rparr>"
  have t: "title_of title_script_page = Some ''evil()''"
    by (simp add: title_of_def title_script_page_def find_tag_def descendants_def)
  have bt: "body_text title_script_page = ''hi''"
    by (simp add: body_text_visible title_script_page_def find_tag_def descendants_def
          text_simps)
  have ct: "copy_text ?E title_script_page = Inr ''hi''"
    by (simp add: copy_text_visible title_script_page_def find_tag_def descendants_def
          page_env_def text_simps)
  have chk: "get_and_check (http_get ?E ''http://site.test'') = Inr ''page''"
    by (simp add: page_env_def is_http_url_def lower_code_def get_and_check_def raise_for_status_def)
  have prs: "html_parse ?E ''page'' = Inr title_script_page"
    by (simp add: page_env_def)
  have a: "fst (fetch_website_contents ?E ''http://site.test'' \<lparr>objs = [], reqs = []\<rparr>)
             = ''evil()\<newline>\<newline>hi''"
    using contents_try_value [OF chk prs] t bt
    by (simp add: fetch_website_contents_value add_title_def slice_to_def)
  have b: "fst (get_contents ?E ?f 2000 ?w) = Inr ''evil()\<newline>\<newline>hi''"
    using get_contents_result [of ?f 0 ?E 2000 ?w] t ct
    by (simp add: add_title_def slice_to_def)
  show ?thesis using a b by simp
qed

section \<open>The extracted content\<close>

text \<open>
  Claim C2, as the code has it. Let \<open>max_length\<close> be not negative and the document of the
  fetcher present. Every string that \<open>get_contents\<close> returns is not longer than
  \<open>max_length\<close>, and it is the first \<open>max_length\<close> characters of title, two newlines and
  the text of the copy of the body. \<open>get_contents\<close> returns such a string whenever the title
  is absent or has a \<open>.string\<close> and the serialised body has been parsed; the string is the
  whole of title, two newlines and text, unchanged, when that is not longer than
  \<open>max_length\<close>. The text of the copy is the body text of the document when the copy is
  faithful. Every string that \<open>fetch_website_contents\<close> returns from its \<open>try\<close> block is not
  longer than 2000, and for a title that is absent or has a \<open>.string\<close> it is the first 2000
  characters of title, two newlines and body text, unchanged when that is not longer.
\<close>

theorem content_truncation:
  assumes "0 \<le> max_length" and "soup f = Some p"
  shows "(fst (get_contents E f max_length w) = Inr s \<longrightarrow>
            int (length s) \<le> max_length
            \<and> (\<exists>t tx. title_of (objs w ! p) = Some t
                  \<and> copy_text E (objs w ! p) = Inr tx
                  \<and> s = take (nat max_length) (t @ ''\<newline>\<newline>'' @ tx)))
         \<and> (title_of (objs w ! p) = Some t \<and> copy_text E (objs w ! p) = Inr tx \<longrightarrow>
            fst (get_contents E f max_length w)
              = Inr (take (nat max_length) (t @ ''\<newline>\<newline>'' @ tx))
            \<and> (int (length (t @ ''\<newline>\<newline>'' @ tx)) \<le> max_length \<longrightarrow>
                 fst (get_contents E f max_length w) = Inr (t @ ''\<newline>\<newline>'' @ tx)))
         \<and> (faithful_copy E (objs w ! p) \<longrightarrow>
              copy_text E (objs w ! p) = Inr (body_text (objs w ! p)))
         \<and> (contents_try E (http_get E u) = Inr s' \<longrightarrow>
              fst (fetch_website_contents E u v) = s' \<and> length s' \<le> 2000)
         \<and> (get_and_check (http_get E u) = Inr content \<and> html_parse E content = Inr doc
              \<and> title_of doc = Some t' \<longrightarrow>
            fst (fetch_website_contents E u v)
              = take 2000 (t' @ ''\<newline>\<newline>'' @ body_text doc)
            \<and> (length (t' @ ''\<newline>\<newline>'' @ body_text doc) \<le> 2000 \<longrightarrow>
                 fst (fetch_website_contents E u v) = t' @ ''\<newline>\<newline>'' @ body_text doc))"
proof -
  let ?doc = "objs w ! p"
  note res = get_contents_result [OF assms(2), of E max_length w]
  have a: "fst (get_contents E f max_length w) = Inr s \<longrightarrow>
            int (length s) \<le> max_length
            \<and> (\<exists>t tx. title_of ?doc = Some t \<and> copy_text E ?doc = Inr tx
                  \<and> s = take (nat max_length) (t @ ''\<newline>\<newline>'' @ tx))"
  proof
    assume r: "fst (get_contents E f max_length w) = Inr s"
    then obtain tx where ct: "copy_text E ?doc = Inr tx"
      using res by (cases "copy_text E ?doc") simp_all
    then obtain t where tt: "title_of ?doc = Some t"
      using res r by (cases "title_of ?doc") (simp_all add: add_title_def)
    have "s = take (nat max_length) (t @ ''\<newline>\<newline>'' @ tx)"
      using res r ct tt assms(1) by (simp add: add_title_Some slice_to_nonneg)
    then show "int (length s) \<le> max_length
            \<and> (\<exists>t tx. title_of ?doc = Some t \<and> copy_text E ?doc = Inr tx
                  \<and> s = take (nat max_length) (t @ ''\<newline>\<newline>'' @ tx))"
      using ct tt assms(1) by auto
  qed
  have b: "title_of ?doc = Some t \<and> copy_text E ?doc = Inr tx \<longrightarrow>
            fst (get_contents E f max_length w)
              = Inr (take (nat max_length) (t @ ''\<newline>\<newline>'' @ tx))
            \<and> (int (length (t @ ''\<newline>\<newline>'' @ tx)) \<le> max_length \<longrightarrow>
                 fst (get_contents E f max_length w) = Inr (t @ ''\<newline>\<newline>'' @ tx))"
    using res assms(1) by (auto simp: add_title_Some slice_to_nonneg)
  have c: "faithful_copy E ?doc \<longrightarrow> copy_text E ?doc = Inr (body_text ?doc)"
    using copy_text_faithful by blast
  have d: "contents_try E (http_get E u) = Inr s' \<longrightarrow>
             fst (fetch_website_contents E u v) = s' \<and> length s' \<le> 2000"
    by (auto simp: fetch_website_contents_value contents_try_def slice_to_def
             split: sum.splits)
  have e: "get_and_check (http_get E u) = Inr content \<and> html_parse E content = Inr doc
              \<and> title_of doc = Some t' \<longrightarrow>
            fst (fetch_website_contents E u v)
              = take 2000 (t' @ ''\<newline>\<newline>'' @ body_text doc)
            \<and> (length (t' @ ''\<newline>\<newline>'' @ body_text doc) \<le> 2000 \<longrightarrow>
                 fst (fetch_website_contents E u v) = t' @ ''\<newline>\<newline>'' @ body_text doc)"
    using contents_try_value [of "http_get E u" content E doc]
    by (auto simp: fetch_website_contents_value add_title_Some slice_to_nonneg)
  show ?thesis
    using a b c d e by (intro conjI)
qed

theorem content_truncation_witness:
  "title_of plain_page = Some ''Home''
   \<and> copy_text (page_env (Response 200 ''page'') plain_page) plain_page = Inr ''hello''
   \<and> faithful_copy (page_env (Response 200 ''page'') plain_page) plain_page
   \<and> fst (get_contents (page_env (Response 200 ''page'') plain_page)
            \<lparr>url = ''http://site.test'', soup = Some 0\<rparr> 2000
            \<lparr>objs = [plain_page], reqs = []\<rparr>) = Inr ''Home\<newline>\<newline>hello''
   \<and> fst (get_contents (page_env (Response 200 ''page'') plain_page)
            \<lparr>url = ''http://site.test'', soup = Some 0\<rparr> 7
            \<lparr>objs = [plain_page], reqs = []\<rparr>) = Inr ''Home\<newline>\<newline>h''
   \<and> int (length ''Home\<newline>\<newline>h'') \<le> 7
   \<and> contents_try (page_env (Response 200 ''page'') plain_page)
         (http_get (page_env (Response 200 ''page'') plain_page) ''http://site.test'')
       = Inr ''Home\<newline>\<newline>hello''
   \<and> length ''Home\<newline>\<newline>hello'' \<le> 2000
   \<and> fst (fetch_website_contents (page_env (Response 200 ''page'') plain_page)
            ''http://site.test'' \<lparr>objs = [], reqs = []\<rparr>) = ''Home\<newline>\<newline>hello''"
proof -
  let ?E = "page_env (Response 200 ''page'') plain_page"
  let ?f = "\<lparr>url = ''http://site.test'', soup = Some 0\<rparr>"
  let ?w = "\<lparr>objs = [plain_page], reqs = []\<rparr>"
  have t: "title_of (objs ?w ! 0) = Some ''Home''"
    by (simp add: title_of_def plain_page_def find_tag_def descendants_def)
  have fc: "faithful_copy ?E (objs ?w ! 0)"
    by (simp add: faithful_copy_def page_env_def plain_page_def find_tag_def descendants_def)
  have bt: "body_text plain_page = ''hello''"
    by (simp add: body_text_def plain_page_def eval_simps)
  have sp: "soup ?f = Some 0" by simp
  have n1: "(0::int) \<le> 2000" by simp
  have n2: "(0::int) \<le> 7" by simp
  have c2: "get_and_check (http_get ?E ''http://site.test'') = Inr ''page''
            \<and> html_parse ?E ''page'' = Inr plain_page \<and> title_of plain_page = Some ''Home''"
    using t by (simp add: page_env_def is_http_url_def lower_code_def get_and_check_def raise_for_status_def)
  note i1 = content_truncation [OF n1 sp, where E = ?E and w = ?w and t = "''Home''"
      and tx = "''hello''" and u = "''http://site.test''" and content = "''page''"
      and doc = plain_page and t' = "''Home''" and v = "\<lparr>objs = [], reqs = []\<rparr>"
      and s' = "''Home\<newline>\<newline>hello''"]
  note i2 = content_truncation [OF n2 sp, where E = ?E and w = ?w and t = "''Home''"
      and tx = "''hello''" and s = "''Home\<newline>\<newline>h''"]
  note i1_get = i1 [THEN conjunct2, THEN conjunct1]
  note i1_copy = i1 [THEN conjunct2, THEN conjunct2, THEN conjunct1]
  note i1_try = i1 [THEN conjunct2, THEN conjunct2, THEN conjunct2, THEN conjunct1]
  note i1_fetch = i1 [THEN conjunct2, THEN conjunct2, THEN conjunct2, THEN conjunct2]
  note i2_bound = i2 [THEN conjunct1]
  note i2_get = i2 [THEN conjunct2, THEN conjunct1]
  have ct: "copy_text ?E (objs ?w ! 0) = Inr ''hello''"
    using i1_copy fc bt by simp
  have a: "fst (get_contents ?E ?f 2000 ?w) = Inr ''Home\<newline>\<newline>hello''"
    using i1_get t ct by simp
  have b: "fst (get_contents ?E ?f 7 ?w) = Inr ''Home\<newline>\<newline>h''"
    using i2_get t ct by simp
  have bl: "int (length ''Home\<newline>\<newline>h'') \<le> 7"
    using i2_bound b by blast
  have c: "fst (fetch_website_contents ?E ''http://site.test'' \<lparr>objs = [], reqs = []\<rparr>)
             = ''Home\<newline>\<newline>hello''"
    using i1_fetch c2 bt by simp
  have tr: "contents_try ?E (http_get ?E ''http://site.test'') = Inr ''Home\<newline>\<newline>hello''"
    using contents_try_value [of "http_get ?E ''http://site.test''" "''page''" ?E plain_page]
      c2 bt
    by (simp add: add_title_def slice_to_def)
  have tl: "length ''Home\<newline>\<newline>hello'' \<le> 2000"
    using i1_try tr by blast
  show ?thesis using t ct fc a b bl tr tl c by simp
qed

text \<open>
  Claim C2 as stated speaks of every \<open>max_length\<close>. With \<open>max_length = -1\<close> the slice
  drops the last character, and the result is longer than \<open>max_length\<close>.
\<close>

theorem content_truncation_counterexample:
  "fst (get_contents (page_env (Response 200 ''page'') plain_page)
          \<lparr>url = ''http://site.test'', soup = Some 0\<rparr> (- 1)
          \<lparr>objs = [plain_page], reqs = []\<rparr>) = Inr ''Home\<newline>\<newline>hell''
   \<and> \<not> int (length ''Home\<newline>\<newline>hell'') \<le> - 1"
proof -
  let ?E = "page_env (Response 200 ''page'') plain_page"
  let ?f = "\<lparr>url = ''http://site.test'', soup = Some 0\<rparr>"
  let ?w = "\<lparr>objs = [plain_page], reqs = []\<rparr>"
  have t: "title_of plain_page = Some ''Home''"
    by (simp add: title_of_def plain_page_def find_tag_def descendants_def)
  have bt: "body_text plain_page = ''hello''"
    by (simp add: body_text_def plain_page_def eval_simps)
  have fc: "faithful_copy ?E (objs ?w ! 0)"
    by (simp add: faithful_copy_def page_env_def plain_page_def find_tag_def descendants_def)
  have a: "fst (get_contents ?E ?f (- 1) ?w) = Inr ''Home\<newline>\<newline>hell''"
    using get_contents_value [of ?f 0 ?E ?w "- 1"] fc t bt
    by (simp add: add_title_def slice_to_def)
  show ?thesis using a by simp
qed




section \<open>HTTP statuses\<close>

lemma links_loop_http_get:
  "links_loop (E\<lparr>http_get := h\<rparr>) u ls acc = links_loop E u ls acc"
  by (induction ls arbitrary: acc) (simp_all split: option.splits sum.splits)

lemma get_and_check_other_status:
  "status < 400 \<or> 600 \<le> status \<Longrightarrow>
     get_and_check (Response status content) = Inr content"
  by (auto simp: get_and_check_def raise_for_status_def)

text \<open>
  Claim C6, as the code has it. A response whose status is from 400 to 599 makes
  \<open>raise_for_status\<close> raise: \<open>fetch_website_contents\<close> returns
  \<open>[Error: HTTP <status> for <url>]\<close>, where \<open><status>\<close> is the decimal numeral of the
  status of the response (reading the numeral back gives the status); \<open>fetch_website_links\<close>
  returns the empty list and a \<open>WebsiteFetcher\<close> is left without a document. A response
  with any other status raises nothing: the three fetches do with it what they do with a
  response of status 200 and the same content.
\<close>

theorem http_error_status:
  assumes "http_get E u = Response status content"
  shows "(400 \<le> status \<and> status < 600 \<longrightarrow>
            fst (fetch_website_contents E u w)
              = ''[Error: HTTP '' @ str_nat status @ '' for '' @ u @ '']''
            \<and> read_nat (str_nat status) = status
            \<and> fst (fetch_website_links E u w) = []
            \<and> fst (WebsiteFetcher E u w) = Inr \<lparr>url = u, soup = None\<rparr>)
         \<and> (status < 400 \<or> 600 \<le> status \<longrightarrow>
            get_and_check (http_get E u) = Inr content
            \<and> fetch_website_contents E u w
                = fetch_website_contents (E\<lparr>http_get := \<lambda>v. Response 200 content\<rparr>) u w
            \<and> fetch_website_links E u w
                = fetch_website_links (E\<lparr>http_get := \<lambda>v. Response 200 content\<rparr>) u w
            \<and> WebsiteFetcher E u w
                = WebsiteFetcher (E\<lparr>http_get := \<lambda>v. Response 200 content\<rparr>) u w)"
proof -
  have err: "400 \<le> status \<and> status < 600 \<longrightarrow>
            fst (fetch_website_contents E u w)
              = ''[Error: HTTP '' @ str_nat status @ '' for '' @ u @ '']''
            \<and> read_nat (str_nat status) = status
            \<and> fst (fetch_website_links E u w) = []
            \<and> fst (WebsiteFetcher E u w) = Inr \<lparr>url = u, soup = None\<rparr>"
  proof
    assume st: "400 \<le> status \<and> status < 600"
    have chk: "get_and_check (http_get E u) = Inl (HTTPError status)"
      using assms st by (simp add: get_and_check_def raise_for_status_def)
    have a: "fst (fetch_website_contents E u w)
               = ''[Error: HTTP '' @ str_nat status @ '' for '' @ u @ '']''"
      by (simp add: fetch_website_contents_value contents_try_fails [OF chk] contents_except_def)
    have b: "fst (fetch_website_links E u w) = []"
      by (simp add: fetch_website_links_value links_try_fails [OF chk])
    have c: "fst (WebsiteFetcher E u w) = Inr \<lparr>url = u, soup = None\<rparr>"
      using WebsiteFetcher_fails [OF chk] by simp
    show "fst (fetch_website_contents E u w)
              = ''[Error: HTTP '' @ str_nat status @ '' for '' @ u @ '']''
            \<and> read_nat (str_nat status) = status
            \<and> fst (fetch_website_links E u w) = []
            \<and> fst (WebsiteFetcher E u w) = Inr \<lparr>url = u, soup = None\<rparr>"
      using a b c read_nat_str_nat by simp
  qed
  have ok: "status < 400 \<or> 600 \<le> status \<longrightarrow>
            get_and_check (http_get E u) = Inr content
            \<and> fetch_website_contents E u w
                = fetch_website_contents (E\<lparr>http_get := \<lambda>v. Response 200 content\<rparr>) u w
            \<and> fetch_website_links E u w
                = fetch_website_links (E\<lparr>http_get := \<lambda>v. Response 200 content\<rparr>) u w
            \<and> WebsiteFetcher E u w
                = WebsiteFetcher (E\<lparr>http_get := \<lambda>v. Response 200 content\<rparr>) u w"
  proof
    assume st: "status < 400 \<or> 600 \<le> status"
    have chk: "get_and_check (http_get E u) = Inr content"
      using assms get_and_check_other_status [OF st] by simp
    have chk200: "get_and_check (Response 200 content) = Inr content"
      by (simp add: get_and_check_def raise_for_status_def)
    have a: "fetch_website_contents E u w
               = fetch_website_contents (E\<lparr>http_get := \<lambda>v. Response 200 content\<rparr>) u w"
      using chk chk200
      by (simp add: fetch_website_contents_def requests_get_def contents_try_def)
    have b: "fetch_website_links E u w
               = fetch_website_links (E\<lparr>http_get := \<lambda>v. Response 200 content\<rparr>) u w"
      using chk chk200
      by (auto simp: fetch_website_links_def requests_get_def links_try_def links_loop_http_get
            split: sum.splits)
    have c: "WebsiteFetcher E u w
               = WebsiteFetcher (E\<lparr>http_get := \<lambda>v. Response 200 content\<rparr>) u w"
      using chk chk200
      by (simp add: WebsiteFetcher_def fetch_def requests_get_def)
    show "get_and_check (http_get E u) = Inr content
            \<and> fetch_website_contents E u w
                = fetch_website_contents (E\<lparr>http_get := \<lambda>v. Response 200 content\<rparr>) u w
            \<and> fetch_website_links E u w
                = fetch_website_links (E\<lparr>http_get := \<lambda>v. Response 200 content\<rparr>) u w
            \<and> WebsiteFetcher E u w
                = WebsiteFetcher (E\<lparr>http_get := \<lambda>v. Response 200 content\<rparr>) u w"
      using chk a b c by simp
  qed
  show ?thesis using err ok by (rule conjI)
qed

theorem http_error_status_witness:
  "http_get (page_env (Response 404 ''page'') plain_page) ''http://site.test'' = Response 404 ''page''
   \<and> (400::nat) \<le> 404 \<and> (404::nat) < 600
   \<and> fst (fetch_website_contents (page_env (Response 404 ''page'') plain_page)
            ''http://site.test'' \<lparr>objs = [], reqs = []\<rparr>)
       = ''[Error: HTTP 404 for http://site.test]''
   \<and> fst (fetch_website_links (page_env (Response 404 ''page'') plain_page)
            ''http://site.test'' \<lparr>objs = [], reqs = []\<rparr>) = []
   \<and> http_get (page_env (Response 304 ''page'') plain_page) ''http://site.test'' = Response 304 ''page''
   \<and> (304::nat) < 400
   \<and> fetch_website_contents (page_env (Response 304 ''page'') plain_page)
            ''http://site.test'' \<lparr>objs = [], reqs = []\<rparr>
       = (''Home\<newline>\<newline>hello'', \<lparr>objs = [], reqs = [''http://site.test'']\<rparr>)"
proof -
  let ?E = "page_env (Response 404 ''page'') plain_page"
  let ?R = "page_env (Response 304 ''page'') plain_page"
  let ?w = "\<lparr>objs = [], reqs = []\<rparr>"
  have h1: "http_get ?E ''http://site.test'' = Response 404 ''page''"
    by (simp add: page_env_def is_http_url_def lower_code_def)
  have s: "str_nat 404 = ''404''"
    by (simp add: str_nat.simps digit_def)
  have a: "fst (fetch_website_contents ?E ''http://site.test'' ?w)
             = ''[Error: HTTP 404 for http://site.test]''
           \<and> fst (fetch_website_links ?E ''http://site.test'' ?w) = []"
    using http_error_status [OF h1, of ?w] s by simp
  have h2: "http_get ?R ''http://site.test'' = Response 304 ''page''"
    by (simp add: page_env_def is_http_url_def lower_code_def)
  have e200: "fetch_website_contents (?R\<lparr>http_get := \<lambda>v. Response 200 ''page''\<rparr>)
                ''http://site.test'' ?w
              = (''Home\<newline>\<newline>hello'', \<lparr>objs = [], reqs = [''http://site.test'']\<rparr>)"
    by (simp add: fetch_website_contents_def requests_get_def contents_try_def
          body_text_def plain_page_def eval_simps)
  have b: "fetch_website_contents ?R ''http://site.test'' ?w
             = (''Home\<newline>\<newline>hello'', \<lparr>objs = [], reqs = [''http://site.test'']\<rparr>)"
    using http_error_status [OF h2, of ?w] e200 by simp
  show ?thesis using h1 h2 a b by simp
qed

text \<open>
  Claim C6 as stated speaks of every status that is not 2xx. A response with status 304 is
  not an error for \<open>raise_for_status\<close>: the page is parsed and its content is returned.
\<close>

theorem redirect_status_counterexample:
  "fst (fetch_website_contents (page_env (Response 304 ''page'') plain_page)
          ''http://site.test'' \<lparr>objs = [], reqs = []\<rparr>) = ''Home\<newline>\<newline>hello''
   \<and> fst (fetch_website_links (page_env (Response 304 ''page'') plain_page)
          ''http://site.test'' \<lparr>objs = [], reqs = []\<rparr>) = []"
  by (simp add: fetch_website_contents_value contents_try_def get_and_check_def
        raise_for_status_def page_env_def is_http_url_def lower_code_def plain_page_def title_of_def find_tag_def
        descendants_def body_text_def get_text_def all_strings_def decompose_all_def
        irrelevant_def strip_def isspace_def add_title_def slice_to_def
        fetch_website_links_value links_try_def find_all_def)

end
